theory Spec2Isabelle
  imports Main "HOL-Library.Sublist"
begin

section \<open>Python strings\<close>

text \<open>
  The backend is one Python module, \<^verbatim>\<open>backend/main.py\<close>. Python \<^verbatim>\<open>str\<close> values are
  modelled as \<^typ>\<open>string\<close>; \<^verbatim>\<open>s.startswith(p)\<close> compares the slice \<^verbatim>\<open>s[:len(p)]\<close> with
  \<^verbatim>\<open>p\<close>, and \<^verbatim>\<open>s[n:]\<close> drops the first \<^verbatim>\<open>n\<close> characters.
\<close>

definition startswith :: "string \<Rightarrow> string \<Rightarrow> bool" where
  "startswith s p \<longleftrightarrow> take (length p) s = p"

definition endswith :: "string \<Rightarrow> string \<Rightarrow> bool" where
  "endswith s p \<longleftrightarrow> length p \<le> length s \<and> drop (length s - length p) s = p"

text \<open>
  \<^verbatim>\<open>str.isspace\<close> on the code points below 256: tab, line feed, vertical tab, form feed,
  carriage return, the four separators 28 to 31, space, NEL (133) and the no-break space (160).
\<close>

definition isspace :: "char \<Rightarrow> bool" where
  "isspace c \<longleftrightarrow> (of_char c :: nat) \<in> set [9, 10, 11, 12, 13, 28, 29, 30, 31, 32, 133, 160]"

definition strip :: "string \<Rightarrow> string" where
  "strip s = rev (dropWhile isspace (rev (dropWhile isspace s)))"

section \<open>The identifier normalizer\<close>

text \<open>
  \<^verbatim>\<open>normalize_plugin_name(name, category)\<close>, the function nested in \<^verbatim>\<open>GarakRunner.run_scan\<close>:
  the prefix \<^verbatim>\<open>garak.<category>.\<close> is tried first, then \<^verbatim>\<open><category>.\<close>, and a name
  with neither is returned as it is.
\<close>

definition normalize_plugin_name :: "string \<Rightarrow> string \<Rightarrow> string" where
  "normalize_plugin_name name category =
     (let full_prefix = ''garak.'' @ category @ ''.'' in
      if startswith name full_prefix then drop (length full_prefix) name
      else
        let short_prefix = category @ ''.'' in
        if startswith name short_prefix then drop (length short_prefix) name
        else name)"

section \<open>Exceptions, events and scan results\<close>

text \<open>
  Every \<^verbatim>\<open>except\<close> clause of the module tells two classes of exception apart at most:
  Starlette's \<^verbatim>\<open>WebSocketDisconnect\<close> and every other subclass of \<^verbatim>\<open>Exception\<close>. Each
  value carries the text that \<^verbatim>\<open>str(e)\<close> gives, which the handlers put into their messages.
\<close>

datatype exn = WebSocketDisconnect string | Exception string

fun str :: "exn \<Rightarrow> string" where
  "str (WebSocketDisconnect m) = m"
| "str (Exception m) = m"

text \<open>
  What can leave a function of the scan path: an exception of class \<^verbatim>\<open>Exception\<close>, or
  \<^verbatim>\<open>SystemExit\<close>, which is outside \<^verbatim>\<open>Exception\<close>, so that no \<^verbatim>\<open>except Exception\<close> clause
  catches it. It comes from the engine, whose argument parser exits with a status on an
  argument vector it rejects; the value carries that status as text. The signals
  \<^verbatim>\<open>KeyboardInterrupt\<close> and \<^verbatim>\<open>CancelledError\<close>, which end the process or the task from
  outside, are not outcomes of a step and have no value here.
\<close>

datatype raised = Exc exn | SystemExit string

text \<open>
  The dictionary that \<^verbatim>\<open>parse_results\<close> builds. What \<^verbatim>\<open>json.loads\<close> returns for a report
  line is opaque to the backend, so the decoded values are the type parameter \<^typ>\<open>'j\<close>.
  \<^verbatim>\<open>None\<close> is \<^term>\<open>None\<close>.
\<close>

record 'j scan_result =
  summary :: "(string \<times> 'j) list"
  details :: "'j list"
  report_html :: "string option"
  report_path :: "string option"

text \<open>
  The frames \<^verbatim>\<open>send_json\<close> puts on the progress channel, by their \<^verbatim>\<open>type\<close> key:
  \<^verbatim>\<open>status\<close> with message and progress, \<^verbatim>\<open>complete\<close> with scan id and results,
  \<^verbatim>\<open>error\<close> with message.
\<close>

datatype 'j event =
    Status string nat
  | Complete string "'j scan_result"
  | Error string

fun terminal :: "'j event \<Rightarrow> bool" where
  "terminal (Status m p) = False"
| "terminal (Complete i r) = True"
| "terminal (Error m) = True"

section \<open>The result parser\<close>

text \<open>
  An output directory is the list of its entries in the order \<^verbatim>\<open>Path.glob\<close> walks them. An
  entry is a name, the lines that the iteration over the opened file yields, and the
  exception, if any, that ends the reading: raised by \<^verbatim>\<open>open(file, 'r')\<close>, and then no
  line is yielded, or by a later read, after the lines before it have been yielded.
\<close>

type_synonym dir_entry = "string \<times> string list \<times> exn option"

text \<open>
  The two patterns are \<^verbatim>\<open>report*.jsonl\<close> and \<^verbatim>\<open>report*.html\<close>: a name matches when it
  starts with \<^verbatim>\<open>report\<close>, ends with the extension, and is long enough for the two not to
  overlap.
\<close>

definition glob_report :: "string \<Rightarrow> string \<Rightarrow> bool" where
  "glob_report ext name \<longleftrightarrow>
     startswith name ''report'' \<and> endswith name ext \<and> length ''report'' + length ext \<le> length name"

text \<open>
  The inner loop \<^verbatim>\<open>for line in f\<close>. \<^verbatim>\<open>json.loads\<close> is library code and comes in as the
  parameter \<open>loads\<close>. The list \<^verbatim>\<open>results["details"]\<close> is mutated in place, so what was
  appended before a line raises stays appended; the exception leaves the loop.
\<close>

fun read_lines :: "(string \<Rightarrow> exn + 'j) \<Rightarrow> string list \<Rightarrow> 'j list \<Rightarrow> exn option \<times> 'j list" where
  "read_lines loads [] ds = (None, ds)"
| "read_lines loads (line # rest) ds =
     (if strip line \<noteq> [] then
        (case loads line of
           Inl e \<Rightarrow> (Some e, ds)
         | Inr data \<Rightarrow> read_lines loads rest (ds @ [data]))
      else read_lines loads rest ds)"

text \<open>
  The outer loop over the files that match \<^verbatim>\<open>report*.jsonl\<close>, with its \<^verbatim>\<open>try\<close> around
  one whole file: the exception of a line that does not decode, or else the one that ends the
  reading, is logged, and the loop goes on with the next file. The second component collects
  the records \<^verbatim>\<open>logger.error\<close> writes.
\<close>

definition parse_error :: "string \<Rightarrow> string \<Rightarrow> exn \<Rightarrow> string" where
  "parse_error output_dir name e = ''Error parsing '' @ output_dir @ ''/'' @ name @ '': '' @ str e"

fun parse_reports ::
  "(string \<Rightarrow> exn + 'j) \<Rightarrow> string \<Rightarrow> dir_entry list \<Rightarrow> 'j list \<times> string list \<Rightarrow> 'j list \<times> string list" where
  "parse_reports loads output_dir [] acc = acc"
| "parse_reports loads output_dir ((name, lines, failure) # files) (ds, lg) =
     (case read_lines loads lines ds of
        (Some e, ds') \<Rightarrow>
          parse_reports loads output_dir files (ds', lg @ [parse_error output_dir name e])
      | (None, ds') \<Rightarrow>
          (case failure of
             None \<Rightarrow> parse_reports loads output_dir files (ds', lg)
           | Some e \<Rightarrow>
               parse_reports loads output_dir files (ds', lg @ [parse_error output_dir name e])))"

text \<open>
  \<^verbatim>\<open>GarakRunner.parse_results(output_dir, scan_id)\<close>, given the path of the directory and its
  entries. It returns the result dictionary and the error records it logged.
\<close>

definition parse_results ::
  "(string \<Rightarrow> exn + 'j) \<Rightarrow> string \<Rightarrow> dir_entry list \<Rightarrow> string \<Rightarrow> 'j scan_result \<times> string list" where
  "parse_results loads output_dir entries scan_id =
     (case parse_reports loads output_dir
             (filter (\<lambda>file. glob_report ''.jsonl'' (fst file)) entries) ([], []) of
        (ds, lg) \<Rightarrow>
          (case filter (\<lambda>file. glob_report ''.html'' (fst file)) entries of
             [] \<Rightarrow>
               (\<lparr>summary = [], details = ds, report_html = None, report_path = None\<rparr>, lg)
           | first # others \<Rightarrow>
               (\<lparr>summary = [], details = ds, report_html = Some (fst first),
                 report_path = Some (''/api/scans/'' @ scan_id @ ''/report'')\<rparr>, lg)))"

section \<open>The scan record store\<close>

text \<open>
  A scan record is the dictionary \<^verbatim>\<open>websocket_scan\<close> builds (the fields of \<^verbatim>\<open>ScanRecord\<close>);
  the key \<^verbatim>\<open>results\<close> is absent until results are attached. The values copied from the
  request can be \<^verbatim>\<open>None\<close>.
\<close>

record 'j scan_record =
  rec_id :: string
  rec_timestamp :: string
  rec_model_name :: "string option"
  rec_probes :: "string list option"
  rec_detectors :: "string list option"
  rec_description :: "string option"
  rec_status :: string
  rec_results :: "'j scan_result option"

text \<open>
  The backing file \<^verbatim>\<open>data/scans.json\<close>: absent, present but not openable for reading,
  holding text that \<^verbatim>\<open>json.load\<close> rejects, or holding a list of records. Opening the
  file for writing and \<^verbatim>\<open>json.dump\<close> are taken to succeed: the write replaces whatever the
  file was. The module only ever writes lists of records; a file holding JSON of another
  shape is not part of the model.
\<close>

datatype 'j scans_file = Missing | Unreadable | Garbled | Holds "'j scan_record list"

text \<open>The body of the \<^verbatim>\<open>try\<close> in \<^verbatim>\<open>load_scans\<close>: \<^verbatim>\<open>open\<close>, then \<^verbatim>\<open>json.load\<close>.\<close>

fun read_scans :: "'j scans_file \<Rightarrow> exn + 'j scan_record list" where
  "read_scans Missing = Inl (Exception ''[Errno 2] No such file or directory'')"
| "read_scans Unreadable = Inl (Exception ''[Errno 13] Permission denied'')"
| "read_scans Garbled = Inl (Exception ''Expecting value: line 1 column 1 (char 0)'')"
| "read_scans (Holds scans) = Inr scans"

definition load_scans :: "'j scans_file \<Rightarrow> 'j scan_record list" where
  "load_scans file = (case read_scans file of Inl e \<Rightarrow> [] | Inr scans \<Rightarrow> scans)"

definition save_scan :: "'j scan_record \<Rightarrow> 'j scans_file \<Rightarrow> 'j scans_file" where
  "save_scan scan file = Holds (load_scans file @ [scan])"

text \<open>
  The update loop at the end of \<^verbatim>\<open>websocket_scan\<close>: the first record with the scan's id
  is set to \<^verbatim>\<open>completed\<close>, gets the results when they are truthy, and the loop breaks.
  The dictionary of \<^verbatim>\<open>parse_results\<close> always has its four keys, so it is truthy whenever
  it is not \<^verbatim>\<open>None\<close>.
\<close>

fun mark_completed ::
  "string \<Rightarrow> 'j scan_result option \<Rightarrow> 'j scan_record list \<Rightarrow> 'j scan_record list" where
  "mark_completed scan_id scan_results [] = []"
| "mark_completed scan_id scan_results (scan # scans) =
     (if rec_id scan = scan_id then
        (case scan_results of
           None \<Rightarrow> scan\<lparr>rec_status := ''completed''\<rparr>
         | Some r \<Rightarrow> scan\<lparr>rec_status := ''completed'', rec_results := Some r\<rparr>) # scans
      else scan # mark_completed scan_id scan_results scans)"

section \<open>The process and its surroundings\<close>

text \<open>
  The scan request as \<^verbatim>\<open>receive_json\<close> delivers it: a dictionary in which each of the four
  keys is absent, present with the value \<^verbatim>\<open>null\<close>, or present with a value of the type that
  \<^verbatim>\<open>ScanRequest\<close> gives it. Values of other JSON types, and a request that is not an
  object, are not part of the model.
\<close>

datatype 'a field = Absent | Null | Present 'a

record scan_request =
  req_model_name :: "string field"
  req_probes :: "string list field"
  req_detectors :: "string list field"
  req_description :: "string field"

text \<open>
  \<^verbatim>\<open>data.get(k)\<close> gives \<^verbatim>\<open>None\<close> for an absent key; \<^verbatim>\<open>data[k]\<close> raises \<^verbatim>\<open>KeyError\<close>, whose
  \<^verbatim>\<open>str\<close> is the key between apostrophes. A key present with \<^verbatim>\<open>null\<close> gives \<^verbatim>\<open>None\<close>
  either way.
\<close>

fun dict_get :: "'a field \<Rightarrow> 'a option" where
  "dict_get Absent = None"
| "dict_get Null = None"
| "dict_get (Present v) = Some v"

definition key_error :: "string \<Rightarrow> exn" where
  "key_error k = Exception (CHR 0x27 # k @ [CHR 0x27])"

fun dict_getitem :: "string \<Rightarrow> 'a field \<Rightarrow> exn + 'a option" where
  "dict_getitem k Absent = Inl (key_error k)"
| "dict_getitem k Null = Inr None"
| "dict_getitem k (Present v) = Inr (Some v)"

text \<open>
  What one run of \<^verbatim>\<open>websocket_scan\<close> meets outside the module: whether \<^verbatim>\<open>accept\<close> raises,
  what \<^verbatim>\<open>receive_json\<close> gives, for each call of \<^verbatim>\<open>send_json\<close> on the session (counted
  from 0) whether it raises, the fresh \<^verbatim>\<open>uuid4\<close> and the clock, whether \<^verbatim>\<open>import garak\<close>
  and \<^verbatim>\<open>mkdir\<close> raise, \<^verbatim>\<open>Path.resolve\<close>, the engine (\<^verbatim>\<open>cli.main\<close> maps its argument
  vector, whose elements are strings or \<^verbatim>\<open>None\<close>, to what it raises, if anything, and to the
  entries of the output directory afterwards), and \<^verbatim>\<open>json.loads\<close>.
\<close>

record 'j env =
  accept_raises :: "exn option"
  receive_json :: "exn + scan_request"
  send_raises :: "nat \<Rightarrow> exn option"
  uuid4 :: string
  now_isoformat :: string
  import_garak :: "exn option"
  mkdir_raises :: "exn option"
  resolve :: "string \<Rightarrow> string"
  cli_main :: "string option list \<Rightarrow> raised option \<times> dir_entry list"
  json_loads :: "string \<Rightarrow> exn + 'j"

text \<open>
  The state the module changes: the backing file, the module-level list
  \<^verbatim>\<open>active_connections\<close> (websockets by identity), the records written by \<^verbatim>\<open>logger.error\<close>,
  and, for the websocket of this session, the frames delivered to the client and the number of
  \<^verbatim>\<open>send_json\<close> calls made.
\<close>

record 'j world =
  scans_file :: "'j scans_file"
  active_connections :: "nat list"
  errors_logged :: "string list"
  sent :: "'j event list"
  send_calls :: nat

definition logger_error :: "string \<Rightarrow> 'j world \<Rightarrow> 'j world" where
  "logger_error msg w = w\<lparr>errors_logged := errors_logged w @ [msg]\<rparr>"

definition send_json :: "'j env \<Rightarrow> 'j event \<Rightarrow> 'j world \<Rightarrow> exn option \<times> 'j world" where
  "send_json env ev w =
     (case send_raises env (send_calls w) of
        None \<Rightarrow> (None, w\<lparr>sent := sent w @ [ev], send_calls := Suc (send_calls w)\<rparr>)
      | Some e \<Rightarrow> (Some e, w\<lparr>send_calls := Suc (send_calls w)\<rparr>))"

section \<open>The scan job runner\<close>

text \<open>An f-string renders \<^verbatim>\<open>None\<close> as the text \<^verbatim>\<open>None\<close>.\<close>

fun format_str :: "string option \<Rightarrow> string" where
  "format_str None = ''None''"
| "format_str (Some s) = s"

text \<open>
  The loop \<^verbatim>\<open>for probe in probes\<close>: over \<^verbatim>\<open>None\<close> it raises \<^verbatim>\<open>TypeError\<close>. The detectors
  are guarded by \<^verbatim>\<open>if detectors\<close>, which \<^verbatim>\<open>None\<close> and the empty list both fail.
\<close>

definition probe_args :: "string list option \<Rightarrow> exn + string list" where
  "probe_args probes =
     (case probes of
        None \<Rightarrow>
          Inl (Exception (CHR 0x27 # ''NoneType'' @ CHR 0x27 # '' object is not iterable''))
      | Some ps \<Rightarrow>
          Inr (concat (map (\<lambda>probe. [''--probes'', normalize_plugin_name probe ''probes'']) ps)))"

definition detector_args :: "string list option \<Rightarrow> string list" where
  "detector_args detectors =
     (case detectors of
        None \<Rightarrow> []
      | Some ds \<Rightarrow>
          concat (map (\<lambda>detector. [''--detectors'', normalize_plugin_name detector ''detectors'']) ds))"

definition output_dir_of :: "string \<Rightarrow> string" where
  "output_dir_of scan_id = ''data/'' @ scan_id"

text \<open>The list \<^verbatim>\<open>args\<close>, from the model name and the probe arguments already built.\<close>

definition garak_args ::
  "'j env \<Rightarrow> string option \<Rightarrow> string list \<Rightarrow> string list option \<Rightarrow> string \<Rightarrow> string option list" where
  "garak_args env model_name probe_arguments detectors scan_id =
     [Some ''--model_type'', Some ''ollama'', Some ''--model_name'', model_name]
       @ map Some (probe_arguments @ detector_args detectors
                     @ [''--report_prefix'', resolve env (output_dir_of scan_id) @ ''/report''])"

text \<open>
  \<^verbatim>\<open>run_garak\<close>, the closure handed to the executor, together with the \<^verbatim>\<open>await\<close> on it: an
  exception of class \<^verbatim>\<open>Exception\<close> is logged and becomes \<^verbatim>\<open>False\<close>. \<^verbatim>\<open>SystemExit\<close> passes
  the \<^verbatim>\<open>except Exception\<close> of the closure, is kept by the executor's future, and is raised
  again by the \<^verbatim>\<open>await\<close>: that is the left case, with the exit status.
\<close>

definition run_garak ::
  "'j env \<Rightarrow> string option list \<Rightarrow> 'j world \<Rightarrow> (string + bool) \<times> dir_entry list \<times> 'j world" where
  "run_garak env args w =
     (case cli_main env args of
        (None, entries) \<Rightarrow> (Inr True, entries, w)
      | (Some (Exc e), entries) \<Rightarrow>
          (Inr False, entries, logger_error (''Garak scan error: '' @ str e) w)
      | (Some (SystemExit status), entries) \<Rightarrow> (Inl status, entries, w))"

text \<open>
  The body of the \<^verbatim>\<open>try\<close> in \<^verbatim>\<open>run_scan\<close>. It gives what left it, if anything, the value
  of the variable \<^verbatim>\<open>results\<close> at that point, and the state.
\<close>

definition run_scan_body ::
  "'j env \<Rightarrow> string option \<Rightarrow> string list option \<Rightarrow> string list option \<Rightarrow> string \<Rightarrow> 'j world
     \<Rightarrow> raised option \<times> 'j scan_result option \<times> 'j world" where
  "run_scan_body env model_name probes detectors scan_id w0 =
     (case send_json env (Status (''Starting scan on model: '' @ format_str model_name) 0) w0 of
        (Some e, w1) \<Rightarrow> (Some (Exc e), None, w1)
      | (None, w1) \<Rightarrow>
     (case import_garak env of
        Some e \<Rightarrow> (Some (Exc e), None, w1)
      | None \<Rightarrow>
     (case probe_args probes of
        Inl e \<Rightarrow> (Some (Exc e), None, w1)
      | Inr probe_arguments \<Rightarrow>
     (case mkdir_raises env of
        Some e \<Rightarrow> (Some (Exc e), None, w1)
      | None \<Rightarrow>
     (case send_json env (Status ''Initializing Garak...'' 10) w1 of
        (Some e, w2) \<Rightarrow> (Some (Exc e), None, w2)
      | (None, w2) \<Rightarrow>
     (case send_json env (Status ''Running scan...'' 20) w2 of
        (Some e, w3) \<Rightarrow> (Some (Exc e), None, w3)
      | (None, w3) \<Rightarrow>
     (case run_garak env (garak_args env model_name probe_arguments detectors scan_id) w3 of
        (Inl status, entries, w4) \<Rightarrow> (Some (SystemExit status), None, w4)
      | (Inr True, entries, w4) \<Rightarrow>
          (case send_json env (Status ''Scan completed successfully!'' 100) w4 of
             (Some e, w5) \<Rightarrow> (Some (Exc e), None, w5)
           | (None, w5) \<Rightarrow>
               (case parse_results (json_loads env) (output_dir_of scan_id) entries scan_id of
                  (results, lg) \<Rightarrow>
                    (case send_json env (Complete scan_id results)
                            (w5\<lparr>errors_logged := errors_logged w5 @ lg\<rparr>) of
                       (Some e, w6) \<Rightarrow> (Some (Exc e), Some results, w6)
                     | (None, w6) \<Rightarrow> (None, Some results, w6))))
      | (Inr False, entries, w4) \<Rightarrow>
          (case send_json env (Error ''Scan failed. Check logs for details.'') w4 of
             (Some e, w5) \<Rightarrow> (Some (Exc e), None, w5)
           | (None, w5) \<Rightarrow> (None, None, w5)))))))))"

text \<open>
  \<^verbatim>\<open>GarakRunner.run_scan\<close>: the \<^verbatim>\<open>except Exception\<close> handler logs and sends an
  \<^verbatim>\<open>error\<close> frame; an exception of that \<^verbatim>\<open>send_json\<close> leaves the function.
  \<^verbatim>\<open>SystemExit\<close> is not caught and leaves the function as it is. Otherwise the function
  returns \<^verbatim>\<open>results\<close>.
\<close>

definition run_scan ::
  "'j env \<Rightarrow> string option \<Rightarrow> string list option \<Rightarrow> string list option \<Rightarrow> string \<Rightarrow> 'j world
     \<Rightarrow> (raised + 'j scan_result option) \<times> 'j world" where
  "run_scan env model_name probes detectors scan_id w =
     (case run_scan_body env model_name probes detectors scan_id w of
        (None, results, w') \<Rightarrow> (Inr results, w')
      | (Some (SystemExit status), results, w') \<Rightarrow> (Inl (SystemExit status), w')
      | (Some (Exc e), results, w') \<Rightarrow>
          (case send_json env (Error (''Scan error: '' @ str e))
                  (logger_error (''Error running scan: '' @ str e) w') of
             (None, w'') \<Rightarrow> (Inr results, w'')
           | (Some e', w'') \<Rightarrow> (Inl (Exc e'), w'')))"

section \<open>The websocket endpoint\<close>

text \<open>
  The body of the \<^verbatim>\<open>try\<close> in \<^verbatim>\<open>websocket_scan\<close>, from \<^verbatim>\<open>receive_json\<close> to the rewrite of
  the backing file.
\<close>

definition scan_session :: "'j env \<Rightarrow> 'j world \<Rightarrow> raised option \<times> 'j world" where
  "scan_session env w =
     (case receive_json env of
        Inl e \<Rightarrow> (Some (Exc e), w)
      | Inr data \<Rightarrow>
     (case dict_getitem ''model_name'' (req_model_name data) of
        Inl e \<Rightarrow> (Some (Exc e), w)
      | Inr model_name \<Rightarrow>
     (case dict_getitem ''probes'' (req_probes data) of
        Inl e \<Rightarrow> (Some (Exc e), w)
      | Inr probes \<Rightarrow>
          (let scan_id = uuid4 env;
               scan_record = \<lparr>rec_id = scan_id, rec_timestamp = now_isoformat env,
                 rec_model_name = model_name, rec_probes = probes,
                 rec_detectors = dict_get (req_detectors data),
                 rec_description = dict_get (req_description data),
                 rec_status = ''running'', rec_results = None\<rparr>;
               w1 = w\<lparr>scans_file := save_scan scan_record (scans_file w)\<rparr>
           in case run_scan env model_name probes (dict_get (req_detectors data)) scan_id w1 of
                (Inl e, w2) \<Rightarrow> (Some e, w2)
              | (Inr scan_results, w2) \<Rightarrow>
                  (None, w2\<lparr>scans_file :=
                     Holds (mark_completed scan_id scan_results (load_scans (scans_file w2)))\<rparr>)))))"

text \<open>
  \<^verbatim>\<open>websocket_scan(websocket)\<close>. \<^verbatim>\<open>accept\<close> stands before the \<^verbatim>\<open>try\<close>, so its exception
  leaves the function. \<^verbatim>\<open>WebSocketDisconnect\<close> is only logged at level INFO; any other
  exception of class \<^verbatim>\<open>Exception\<close> is logged and sent as an \<^verbatim>\<open>error\<close> frame, whose own
  failure is passed over; \<^verbatim>\<open>SystemExit\<close> meets no clause and leaves the function. The
  \<^verbatim>\<open>finally\<close> clause removes the first occurrence of the websocket from the list in
  every case.
\<close>

definition websocket_scan :: "'j env \<Rightarrow> nat \<Rightarrow> 'j world \<Rightarrow> raised option \<times> 'j world" where
  "websocket_scan env websocket w =
     (case accept_raises env of
        Some e \<Rightarrow> (Some (Exc e), w)
      | None \<Rightarrow>
          (case (case scan_session env
                        (w\<lparr>active_connections := active_connections w @ [websocket]\<rparr>) of
                   (None, w2) \<Rightarrow> (None, w2)
                 | (Some (Exc (WebSocketDisconnect m)), w2) \<Rightarrow> (None, w2)
                 | (Some (Exc (Exception m)), w2) \<Rightarrow>
                     (None, snd (send_json env (Error m)
                                   (logger_error (''WebSocket error: '' @ m) w2)))
                 | (Some (SystemExit status), w2) \<Rightarrow> (Some (SystemExit status), w2)) of
             (leaving, w3) \<Rightarrow>
               (leaving,
                if websocket \<in> set (active_connections w3)
                then w3\<lparr>active_connections := remove1 websocket (active_connections w3)\<rparr>
                else w3)))"

section \<open>Notions used in the statements\<close>

text \<open>The frames a call delivered: what \<^term>\<open>sent\<close> holds after it beyond what it held before.\<close>

definition emitted :: "'j world \<Rightarrow> 'j world \<Rightarrow> 'j event list" where
  "emitted w w' = drop (length (sent w)) (sent w')"

text \<open>
  The records that the lines of one file give when every line is taken by itself: nothing for
  a blank line or a line the decoder rejects, the decoded value otherwise.
\<close>

definition records_of :: "(string \<Rightarrow> exn + 'j) \<Rightarrow> string list \<Rightarrow> 'j list" where
  "records_of loads ls =
     concat (map (\<lambda>l. if strip l = [] then []
                       else (case loads l of Inl e \<Rightarrow> [] | Inr d \<Rightarrow> [d])) ls)"

subsection \<open>Concrete sessions\<close>

text \<open>
  A decoder for the examples. It agrees with \<^verbatim>\<open>json.loads\<close> on the lines the examples
  use: the empty object \<^verbatim>\<open>{}\<close> is decoded (and stands for itself), and a line such as
  \<^verbatim>\<open>oops\<close> raises \<^verbatim>\<open>JSONDecodeError\<close> with the text given.
\<close>

definition loads_example :: "string \<Rightarrow> exn + string" where
  "loads_example l =
     (if strip l = ''{}'' then Inr ''{}''
      else Inl (Exception ''Expecting value: line 1 column 1 (char 0)''))"

text \<open>
  A session that receives the request
  \<^verbatim>\<open>{model_name: "llama3", probes: ["dan.DAN_Jailbreak"], detectors: null}\<close>, with the
  behaviour of the channel and the outcome of the engine left open.
\<close>

definition example_env ::
  "(nat \<Rightarrow> exn option) \<Rightarrow> raised option \<times> dir_entry list \<Rightarrow> string env" where
  "example_env wire engine =
     \<lparr>accept_raises = None,
      receive_json = Inr \<lparr>req_model_name = Present ''llama3'',
                         req_probes = Present [''dan.DAN_Jailbreak''],
                         req_detectors = Null, req_description = Absent\<rparr>,
      send_raises = wire, uuid4 = ''s1'', now_isoformat = ''2025-01-01T00:00:00'',
      import_garak = None, mkdir_raises = None, resolve = (\<lambda>p. ''/srv/backend/'' @ p),
      cli_main = (\<lambda>args. engine), json_loads = loads_example\<rparr>"

text \<open>The process right after start: an empty store, no connection, nothing logged or sent.\<close>

definition idle :: "string world" where
  "idle = \<lparr>scans_file = Holds [], active_connections = [], errors_logged = [],
           sent = [], send_calls = 0\<rparr>"

section \<open>Properties of the identifier normalizer\<close>

lemma startswith_prefix: "startswith s p \<longleftrightarrow> prefix p s"
  unfolding startswith_def
  by (metis append_eq_conv_conj prefix_def take_is_prefix)

lemma drop_prefix_neq:
  assumes "prefix p y" and "p \<noteq> []"
  shows "drop (length p) y \<noteq> y"
proof
  assume eq: "drop (length p) y = y"
  from assms(1) obtain z where "y = p @ z" by (auto simp: prefix_def)
  with eq have "length z = length p + length z" by (metis append_eq_conv_conj length_append)
  with assms(2) show False by simp
qed

lemma normalize_fixed_iff:
  "normalize_plugin_name y c = y \<longleftrightarrow>
     \<not> prefix (''garak.'' @ c @ ''.'') y \<and> \<not> prefix (c @ ''.'') y"
  using drop_prefix_neq[of "''garak.'' @ c @ ''.''" y] drop_prefix_neq[of "c @ ''.''" y]
  by (auto simp add: normalize_plugin_name_def startswith_prefix Let_def)

text \<open>
  Claim C5, as stated: normalizing twice gives the same as normalizing once, for every name
  and both categories. It fails: \<^verbatim>\<open>probes.probes.X\<close> normalizes to \<^verbatim>\<open>probes.X\<close>,
  and that to \<^verbatim>\<open>X\<close>.
\<close>

theorem normalize_not_idempotent:
  "normalize_plugin_name (normalize_plugin_name ''probes.probes.X'' ''probes'') ''probes''
     \<noteq> normalize_plugin_name ''probes.probes.X'' ''probes''"
  by (simp add: normalize_plugin_name_def startswith_def)

text \<open>
  Claim C5, amended: normalizing twice gives the same as normalizing once exactly for the
  names whose normalized form does not itself start with \<^verbatim>\<open>garak.<category>.\<close> or
  \<^verbatim>\<open><category>.\<close>. In particular, for a name \<open>y\<close> with neither prefix and either of the
  two categories, each of the three forms \<open>y\<close>, \<^verbatim>\<open><category>.y\<close> and
  \<^verbatim>\<open>garak.<category>.y\<close> normalizes to \<open>y\<close>, and normalizing again changes nothing.
\<close>

theorem normalize_idempotent_iff:
  "(normalize_plugin_name (normalize_plugin_name x c) c = normalize_plugin_name x c
      \<longleftrightarrow> \<not> prefix (''garak.'' @ c @ ''.'') (normalize_plugin_name x c)
          \<and> \<not> prefix (c @ ''.'') (normalize_plugin_name x c))
   \<and> ((c = ''probes'' \<or> c = ''detectors'') \<longrightarrow>
        \<not> prefix (''garak.'' @ c @ ''.'') y \<longrightarrow> \<not> prefix (c @ ''.'') y \<longrightarrow>
        (\<forall>x\<in>set [y, c @ ''.'' @ y, ''garak.'' @ c @ ''.'' @ y].
           normalize_plugin_name x c = y
           \<and> normalize_plugin_name (normalize_plugin_name x c) c = normalize_plugin_name x c))"
proof -
  have one: "normalize_plugin_name (''garak.'' @ c @ ''.'' @ y) c = y"
    by (simp add: normalize_plugin_name_def startswith_def)
  have two: "normalize_plugin_name (c @ ''.'' @ y) c = y" if "c = ''probes'' \<or> c = ''detectors''"
    using that by (auto simp add: normalize_plugin_name_def startswith_def)
  show ?thesis
    using one two normalize_fixed_iff[of "normalize_plugin_name x c" c] normalize_fixed_iff[of y c]
    by auto
qed

theorem normalize_idempotent_iff_witness:
  "normalize_plugin_name (normalize_plugin_name ''garak.detectors.dan.DANJailbreak'' ''detectors'')
       ''detectors''
     = normalize_plugin_name ''garak.detectors.dan.DANJailbreak'' ''detectors''
   \<and> normalize_plugin_name ''detectors.dan.DANJailbreak'' ''detectors'' = ''dan.DANJailbreak''
   \<and> normalize_plugin_name ''garak.detectors.dan.DANJailbreak'' ''detectors'' = ''dan.DANJailbreak''
   \<and> normalize_plugin_name ''dan.DANJailbreak'' ''detectors'' = ''dan.DANJailbreak''"
  using normalize_idempotent_iff[of "''garak.detectors.dan.DANJailbreak''" "''detectors''"
      "''dan.DANJailbreak''"]
  by (simp add: prefix_def)

text \<open>
  Claim C6: the normalizer strips the prefix \<^verbatim>\<open>garak.<category>.\<close> when the name has it;
  else it strips the prefix \<^verbatim>\<open><category>.\<close> when the name has that; else it returns the
  name unchanged; for the two categories the second case needs no side condition. For the
  category \<^verbatim>\<open>probes\<close>, each of \<^verbatim>\<open>probes.dan.X\<close>, \<^verbatim>\<open>garak.probes.dan.X\<close> and
  \<^verbatim>\<open>dan.X\<close> normalizes to \<^verbatim>\<open>dan.X\<close>, whatever \<open>X\<close> is.
\<close>

theorem normalize_strips_prefix:
  "normalize_plugin_name (''garak.'' @ c @ ''.'' @ y) c = y
   \<and> (\<not> prefix (''garak.'' @ c @ ''.'') (c @ ''.'' @ y) \<longrightarrow>
        normalize_plugin_name (c @ ''.'' @ y) c = y)
   \<and> (c = ''probes'' \<or> c = ''detectors'' \<longrightarrow> normalize_plugin_name (c @ ''.'' @ y) c = y)
   \<and> (\<not> prefix (''garak.'' @ c @ ''.'') x \<longrightarrow> \<not> prefix (c @ ''.'') x \<longrightarrow>
        normalize_plugin_name x c = x)
   \<and> normalize_plugin_name (''probes.dan.'' @ X) ''probes'' = ''dan.'' @ X
   \<and> normalize_plugin_name (''garak.probes.dan.'' @ X) ''probes'' = ''dan.'' @ X
   \<and> normalize_plugin_name (''dan.'' @ X) ''probes'' = ''dan.'' @ X"
proof -
  have full: "normalize_plugin_name (''garak.'' @ c @ ''.'' @ y) c = y"
    by (simp add: normalize_plugin_name_def startswith_def)
  have short: "\<not> prefix (''garak.'' @ c @ ''.'') (c @ ''.'' @ y) \<longrightarrow>
      normalize_plugin_name (c @ ''.'' @ y) c = y"
    by (simp add: normalize_plugin_name_def startswith_prefix Let_def)
  have cats: "c = ''probes'' \<or> c = ''detectors'' \<longrightarrow> normalize_plugin_name (c @ ''.'' @ y) c = y"
    by (auto simp add: normalize_plugin_name_def startswith_def)
  have bare: "\<not> prefix (''garak.'' @ c @ ''.'') x \<longrightarrow> \<not> prefix (c @ ''.'') x \<longrightarrow>
      normalize_plugin_name x c = x"
    by (simp add: normalize_plugin_name_def startswith_prefix Let_def)
  have ex: "normalize_plugin_name (''probes.dan.'' @ X) ''probes'' = ''dan.'' @ X"
    "normalize_plugin_name (''garak.probes.dan.'' @ X) ''probes'' = ''dan.'' @ X"
    "normalize_plugin_name (''dan.'' @ X) ''probes'' = ''dan.'' @ X"
    by (simp_all add: normalize_plugin_name_def startswith_def)
  show ?thesis using full short cats bare ex by blast
qed

theorem normalize_strips_prefix_witness:
  "normalize_plugin_name ''garak.detectors.dan.DANJailbreak'' ''detectors'' = ''dan.DANJailbreak''
   \<and> normalize_plugin_name ''detectors.dan.DANJailbreak'' ''detectors'' = ''dan.DANJailbreak''
   \<and> normalize_plugin_name ''dan'' ''detectors'' = ''dan''
   \<and> normalize_plugin_name ''probes.dan.DAN_Jailbreak'' ''probes'' = ''dan.DAN_Jailbreak''"
  using normalize_strips_prefix[of "''detectors''" "''dan.DANJailbreak''" "''dan''" "''DAN_Jailbreak''"]
  by (simp add: prefix_def)

section \<open>Properties of the result parser\<close>

lemma read_lines_good:
  "\<forall>l\<in>set ls. strip l \<noteq> [] \<longrightarrow> (\<exists>d. loads l = Inr d) \<Longrightarrow>
   read_lines loads ls ds = (None, ds @ records_of loads ls)"
  by (induction ls arbitrary: ds) (auto simp: records_of_def)

lemma read_lines_append:
  "read_lines loads pre ds = (None, ds') \<Longrightarrow>
   read_lines loads (pre @ post) ds = read_lines loads post ds'"
  by (induction pre arbitrary: ds) (auto split: if_splits sum.splits)

lemma read_lines_bad:
  assumes "\<forall>l\<in>set pre. strip l \<noteq> [] \<longrightarrow> (\<exists>d. loads l = Inr d)"
    and "strip bad \<noteq> []" and "loads bad = Inl e"
  shows "read_lines loads (pre @ bad # post) ds = (Some e, ds @ records_of loads pre)"
  using read_lines_append[OF read_lines_good[OF assms(1)], of "bad # post" ds] assms(2,3)
  by simp

lemma read_lines_acc:
  "read_lines loads ls ds = (fst (read_lines loads ls []), ds @ snd (read_lines loads ls []))"
proof (induction ls arbitrary: ds)
  case Nil
  then show ?case by simp
next
  case (Cons l ls)
  show ?case
    using Cons.IH[of "ds @ [d]" for d] Cons.IH[of "[d]" for d] Cons.IH[of ds]
    by (auto split: sum.splits)
qed

lemma parse_reports_append:
  "parse_reports loads dir (fs @ gs) acc =
     parse_reports loads dir gs (parse_reports loads dir fs acc)"
proof (induction fs arbitrary: acc)
  case Nil
  then show ?case by simp
next
  case (Cons f fs)
  obtain name lines failure where f: "f = (name, lines, failure)" by (cases f)
  obtain ds lg where acc: "acc = (ds, lg)" by (cases acc)
  show ?case
    by (simp add: f acc Cons.IH split: sum.splits prod.splits option.splits)
qed

lemma parse_reports_acc:
  "parse_reports loads dir fs (ds, lg) =
     (ds @ fst (parse_reports loads dir fs ([], [])),
      lg @ snd (parse_reports loads dir fs ([], [])))"
proof (induction fs arbitrary: ds lg)
  case Nil
  then show ?case by simp
next
  case (Cons f fs)
  obtain name lines failure where f: "f = (name, lines, failure)" by (cases f)
  obtain o1 d1 where r0: "read_lines loads lines [] = (o1, d1)"
    by (cases "read_lines loads lines []")
  have r: "read_lines loads lines ds = (o1, ds @ d1)"
    using read_lines_acc[of loads lines ds] r0 by simp
  show ?case
  proof (cases o1)
    case None
    show ?thesis
    proof (cases failure)
      case ended: None
      show ?thesis
        using Cons.IH[of "ds @ d1" lg] Cons.IH[of d1 "[]"]
        by (simp add: f r r0 None ended)
    next
      case (Some e)
      show ?thesis
        using Cons.IH[of "ds @ d1" "lg @ [parse_error dir name e]"]
          Cons.IH[of d1 "[parse_error dir name e]"]
        by (simp add: f r r0 None Some)
    qed
  next
    case (Some e)
    show ?thesis
      using Cons.IH[of "ds @ d1" "lg @ [parse_error dir name e]"]
        Cons.IH[of d1 "[parse_error dir name e]"]
      by (simp add: f r r0 Some)
  qed
qed

lemma details_parse_results:
  "details (fst (parse_results loads dir entries sid)) =
     fst (parse_reports loads dir
            (filter (\<lambda>file. glob_report ''.jsonl'' (fst file)) entries) ([], []))"
  by (simp add: parse_results_def split: prod.splits list.splits)

lemma logged_parse_results:
  "snd (parse_results loads dir entries sid) =
     snd (parse_reports loads dir
            (filter (\<lambda>file. glob_report ''.jsonl'' (fst file)) entries) ([], []))"
  by (simp add: parse_results_def split: prod.splits list.splits)

text \<open>
  Claim C4, as stated: a line that fails to parse is skipped without aborting the rest of its
  file, so that one well-formed and one malformed line give exactly one detail record. It
  fails when the malformed line comes first: the \<^verbatim>\<open>try\<close> encloses the whole file, and the
  well-formed line after it is never read.
\<close>

theorem parse_results_bad_line_first:
  "loads_example ''{}'' = Inr ''{}'' \<and> (\<exists>e. loads_example ''oops'' = Inl e)
   \<and> details (fst (parse_results loads_example ''data/s1''
                     [(''report.jsonl'', [''oops'', ''{}''], None)] ''s1'')) = []"
  by (simp add: parse_results_def glob_report_def startswith_def endswith_def loads_example_def
      strip_def isspace_def)

text \<open>
  Claim C4, amended: a report line that fails to parse is logged and ends the reading of its
  own file. The records of the lines before it are kept, the lines after it are dropped, the
  files before and after are parsed as they would be without it, and \<^verbatim>\<open>parse_results\<close>
  raises no error. In particular, one well-formed line followed by one malformed line give
  exactly one detail record.
\<close>

theorem parse_results_bad_line:
  assumes "glob_report ''.jsonl'' name"
    and "\<forall>l\<in>set pre. strip l \<noteq> [] \<longrightarrow> (\<exists>d. loads l = Inr d)"
    and "strip bad \<noteq> []" and "loads bad = Inl e"
  shows "details (fst (parse_results loads dir
                         (before @ (name, pre @ bad # post, failure) # after) sid)) =
           details (fst (parse_results loads dir before sid)) @ records_of loads pre
             @ details (fst (parse_results loads dir after sid))
         \<and> snd (parse_results loads dir
                  (before @ (name, pre @ bad # post, failure) # after) sid) =
           snd (parse_results loads dir before sid) @ [parse_error dir name e]
             @ snd (parse_results loads dir after sid)"
proof -
  let ?P = "\<lambda>file::dir_entry. glob_report ''.jsonl'' (fst file)"
  let ?B = "parse_reports loads dir (filter ?P before) ([], [])"
  let ?A = "parse_reports loads dir (filter ?P after) ([], [])"
  have rl: "read_lines loads (pre @ bad # post) ds = (Some e, ds @ records_of loads pre)" for ds
    using read_lines_bad[OF assms(2,3,4)] .
  have "parse_reports loads dir
          (filter ?P (before @ (name, pre @ bad # post, failure) # after)) ([], [])
      = parse_reports loads dir (filter ?P after)
          (fst ?B @ records_of loads pre, snd ?B @ [parse_error dir name e])"
    using assms(1) by (cases ?B) (simp add: parse_reports_append rl)
  also have "\<dots> = (fst ?B @ records_of loads pre @ fst ?A,
                       snd ?B @ [parse_error dir name e] @ snd ?A)"
    using parse_reports_acc[of loads dir "filter ?P after" "fst ?B @ records_of loads pre"
        "snd ?B @ [parse_error dir name e]"]
    by simp
  finally show ?thesis
    by (simp add: details_parse_results logged_parse_results)
qed

theorem parse_results_bad_line_witness:
  "details (fst (parse_results loads_example ''data/s1''
                   [(''report.jsonl'', [''{}'', ''oops''], None)] ''s1'')) = [''{}'']
   \<and> snd (parse_results loads_example ''data/s1''
            [(''report.jsonl'', [''{}'', ''oops''], None)] ''s1'')
       = [''Error parsing data/s1/report.jsonl: Expecting value: line 1 column 1 (char 0)'']"
  using parse_results_bad_line[where name = "''report.jsonl''" and pre = "[''{}'']"
      and loads = loads_example and bad = "''oops''"
      and e = "Exception ''Expecting value: line 1 column 1 (char 0)''" and dir = "''data/s1''"
      and before = "[]" and post = "[]" and failure = None and after = "[]" and sid = "''s1''"]
  by (simp add: glob_report_def startswith_def endswith_def loads_example_def strip_def
      isspace_def records_of_def parse_results_def parse_error_def)

lemma find_filter:
  "find P xs = (case filter P xs of [] \<Rightarrow> None | x # ys \<Rightarrow> Some x)"
  by (induction xs) auto

text \<open>
  Claim C8: \<^verbatim>\<open>parse_results\<close> returns a result for every output directory. When the
  directory has an entry that matches \<^verbatim>\<open>report*.html\<close> (as \<^verbatim>\<open>report.html\<close> does), the
  report path is \<^verbatim>\<open>/api/scans/{scan_id}/report\<close> and the report filename is the name of the
  first such entry. When no entry matches either pattern, the result has no details, no
  report filename and no report path.
\<close>

theorem parse_results_report_discovery:
  "glob_report ''.html'' ''report.html''
   \<and> ((\<exists>file\<in>set entries. glob_report ''.html'' (fst file)) \<longrightarrow>
        report_path (fst (parse_results loads dir entries sid))
          = Some (''/api/scans/'' @ sid @ ''/report'')
        \<and> report_html (fst (parse_results loads dir entries sid))
          = map_option fst (find (\<lambda>file. glob_report ''.html'' (fst file)) entries))
   \<and> ((\<forall>file\<in>set entries. \<not> glob_report ''.jsonl'' (fst file)
                             \<and> \<not> glob_report ''.html'' (fst file)) \<longrightarrow>
        fst (parse_results loads dir entries sid)
          = \<lparr>summary = [], details = [], report_html = None, report_path = None\<rparr>)"
proof -
  have a: "glob_report ''.html'' ''report.html''"
    by (simp add: glob_report_def startswith_def endswith_def)
  have b: "(\<exists>file\<in>set entries. glob_report ''.html'' (fst file)) \<longrightarrow>
        report_path (fst (parse_results loads dir entries sid))
          = Some (''/api/scans/'' @ sid @ ''/report'')
        \<and> report_html (fst (parse_results loads dir entries sid))
          = map_option fst (find (\<lambda>file. glob_report ''.html'' (fst file)) entries)"
    by (auto simp: parse_results_def find_filter filter_empty_conv
        split: prod.splits list.splits)
  have c: "(\<forall>file\<in>set entries. \<not> glob_report ''.jsonl'' (fst file)
                               \<and> \<not> glob_report ''.html'' (fst file)) \<longrightarrow>
        fst (parse_results loads dir entries sid)
          = \<lparr>summary = [], details = [], report_html = None, report_path = None\<rparr>"
  proof
    assume h: "\<forall>file\<in>set entries. \<not> glob_report ''.jsonl'' (fst file)
                                   \<and> \<not> glob_report ''.html'' (fst file)"
    then have "filter (\<lambda>file. glob_report ''.jsonl'' (fst file)) entries = []"
      and "filter (\<lambda>file. glob_report ''.html'' (fst file)) entries = []"
      by (simp_all add: filter_empty_conv)
    then show "fst (parse_results loads dir entries sid)
        = \<lparr>summary = [], details = [], report_html = None, report_path = None\<rparr>"
      by (simp add: parse_results_def)
  qed
  show ?thesis using a b c by blast
qed

theorem parse_results_report_discovery_witness:
  "report_path (fst (parse_results loads_example ''data/s1''
       [(''report.jsonl'', [''{}''], None), (''report.html'', [], None),
        (''report.digest.html'', [], None)] ''s1'')) = Some ''/api/scans/s1/report''
   \<and> report_html (fst (parse_results loads_example ''data/s1''
       [(''report.jsonl'', [''{}''], None), (''report.html'', [], None),
        (''report.digest.html'', [], None)] ''s1'')) = Some ''report.html''
   \<and> fst (parse_results loads_example ''data/s1'' [(''garak.log'', [''x''], None)] ''s1'')
       = \<lparr>summary = [], details = [], report_html = None, report_path = None\<rparr>"
  using parse_results_report_discovery[of "[(''report.jsonl'', [''{}''], None),
        (''report.html'', [], None), (''report.digest.html'', [], None)]" loads_example "''data/s1''" "''s1''"]
    parse_results_report_discovery[of "[(''garak.log'', [''x''], None)]" loads_example "''data/s1''" "''s1''"]
  by (simp add: glob_report_def startswith_def endswith_def)

section \<open>Properties of the scan record store\<close>

text \<open>
  Claim C9: when the backing file is missing, cannot be opened, or holds text that is not
  JSON, \<^verbatim>\<open>load_scans\<close> returns the empty list; whatever exception the read raises, the
  result is the empty list and nothing is raised.
\<close>

theorem load_scans_read_failure:
  "load_scans (Missing :: 'j scans_file) = []
   \<and> load_scans (Unreadable :: 'j scans_file) = []
   \<and> load_scans (Garbled :: 'j scans_file) = []
   \<and> (\<forall>e. read_scans (file :: 'j scans_file) = Inl e \<longrightarrow> load_scans file = [])
   \<and> (\<forall>scans. file = Holds scans \<longrightarrow> load_scans file = scans)"
  by (simp add: load_scans_def)

theorem load_scans_read_failure_witness:
  "read_scans (Garbled :: string scans_file)
     = Inl (Exception ''Expecting value: line 1 column 1 (char 0)'')
   \<and> load_scans (Garbled :: string scans_file) = []"
  using load_scans_read_failure[of "Garbled :: string scans_file"]
  by simp

section \<open>Properties of the scan job runner\<close>

text \<open>
  What the body of the \<^verbatim>\<open>try\<close> leaves behind, whichever way it ends: it only adds to the
  frames delivered, it touches neither the backing file nor the list of connections, and the
  frames it adds hold no terminal one when something leaves it, the \<^verbatim>\<open>complete\<close> frame with
  the results when it ends with results, and one \<^verbatim>\<open>error\<close> frame when it ends without.
\<close>

lemma run_scan_body_shape:
  "(case run_scan_body env model_name probes detectors scan_id w of
      (out, r, w') \<Rightarrow>
        sent w' = sent w @ emitted w w'
        \<and> scans_file w' = scans_file w \<and> active_connections w' = active_connections w
        \<and> (case out of
              Some e \<Rightarrow> filter terminal (emitted w w') = []
            | None \<Rightarrow>
                (case r of
                   Some res \<Rightarrow> filter terminal (emitted w w') = [Complete scan_id res]
                 | None \<Rightarrow> (\<exists>m. filter terminal (emitted w w') = [Error m]))))"
proof -
  note defs = run_scan_body_def send_json_def run_garak_def logger_error_def emitted_def
  let ?n = "send_calls w"
  show ?thesis
  proof (cases "send_raises env ?n")
    case (Some e)
    then show ?thesis by (simp add: defs)
  next
    case c0: None
    show ?thesis
    proof (cases "import_garak env")
      case (Some e)
      then show ?thesis by (simp add: defs c0)
    next
      case ig: None
      show ?thesis
      proof (cases "probe_args probes")
        case (Inl e)
        then show ?thesis by (simp add: defs c0 ig)
      next
        case pa: (Inr probe_arguments)
        let ?args = "garak_args env model_name probe_arguments detectors scan_id"
        show ?thesis
        proof (cases "mkdir_raises env")
          case (Some e)
          then show ?thesis by (simp add: defs c0 ig pa)
        next
          case mk: None
          show ?thesis
          proof (cases "send_raises env (Suc ?n)")
            case (Some e)
            then show ?thesis by (simp add: defs c0 ig pa mk)
          next
            case c1: None
            show ?thesis
            proof (cases "send_raises env (Suc (Suc ?n))")
              case (Some e)
              then show ?thesis by (simp add: defs c0 ig pa mk c1)
            next
              case c2: None
              obtain oe entries where eng: "cli_main env ?args = (oe, entries)"
                by (cases "cli_main env ?args")
              obtain res lg where pr:
                "parse_results (json_loads env) (output_dir_of scan_id) entries scan_id = (res, lg)"
                by (cases "parse_results (json_loads env) (output_dir_of scan_id) entries scan_id")
              show ?thesis
              proof (cases oe)
                case (Some x)
                show ?thesis
                proof (cases x)
                  case (Exc e)
                  show ?thesis
                    by (cases "send_raises env (Suc (Suc (Suc ?n)))")
                       (simp_all add: defs c0 ig pa mk c1 c2 eng Some Exc)
                next
                  case (SystemExit status)
                  show ?thesis
                    by (simp add: defs c0 ig pa mk c1 c2 eng Some SystemExit)
                qed
              next
                case None
                show ?thesis
                proof (cases "send_raises env (Suc (Suc (Suc ?n)))")
                  case (Some e)
                  then show ?thesis by (simp add: defs c0 ig pa mk c1 c2 eng None)
                next
                  case c3: None
                  show ?thesis
                    by (cases "send_raises env (Suc (Suc (Suc (Suc ?n))))")
                       (simp_all add: defs c0 ig pa mk c1 c2 eng None c3 pr)
                qed
              qed
            qed
          qed
        qed
      qed
    qed
  qed
qed

text \<open>
  The same for \<^verbatim>\<open>run_scan\<close>: whatever leaves it, no terminal frame was delivered; when it
  returns, exactly one was.
\<close>

lemma run_scan_shape:
  "(case run_scan env model_name probes detectors scan_id w of
      (res, w') \<Rightarrow>
        scans_file w' = scans_file w \<and> active_connections w' = active_connections w
        \<and> (case res of
              Inl e \<Rightarrow> filter terminal (emitted w w') = []
            | Inr r \<Rightarrow>
                (\<exists>results. r = Some results
                   \<and> filter terminal (emitted w w') = [Complete scan_id results])
                \<or> (\<exists>m. filter terminal (emitted w w') = [Error m])))"
proof -
  obtain out r w1 where b: "run_scan_body env model_name probes detectors scan_id w = (out, r, w1)"
    by (cases "run_scan_body env model_name probes detectors scan_id w")
  note body = run_scan_body_shape[where env = env and model_name = model_name and probes = probes
      and detectors = detectors and scan_id = scan_id and w = w]
  have s: "sent w1 = sent w @ emitted w w1"
    and f: "scans_file w1 = scans_file w" "active_connections w1 = active_connections w"
    using body b by simp_all
  show ?thesis
  proof (cases out)
    case None
    then show ?thesis
      using body b by (cases r) (auto simp: run_scan_def)
  next
    case (Some x)
    have t: "filter terminal (emitted w w1) = []"
      using body b Some by simp
    define new where "new = emitted w w1"
    have s': "sent w1 = sent w @ new" and t': "filter terminal new = []"
      using s t by (simp_all add: new_def)
    show ?thesis
    proof (cases x)
      case (Exc e)
      show ?thesis
        using f
        by (cases "send_raises env (send_calls w1)")
           (simp_all add: run_scan_def b Some Exc send_json_def logger_error_def emitted_def s' t')
    next
      case (SystemExit status)
      show ?thesis
        using f t by (simp add: run_scan_def b Some SystemExit)
    qed
  qed
qed

text \<open>
  \<^verbatim>\<open>SystemExit\<close> leaves the body only when the engine raises it, and nothing but
  \<^verbatim>\<open>SystemExit\<close> and the handler's own \<^verbatim>\<open>send_json\<close> can leave \<^verbatim>\<open>run_scan\<close>.
\<close>

lemma run_scan_body_exit:
  assumes "\<forall>args status. fst (cli_main env args) \<noteq> Some (SystemExit status)"
  shows "fst (run_scan_body env model_name probes detectors scan_id w) \<noteq> Some (SystemExit status)"
proof -
  have eng: "cli_main env args \<noteq> (Some (SystemExit c), entries)" for args c entries
    using assms[rule_format, of args c] by auto
  show ?thesis
    by (auto simp: run_scan_body_def run_garak_def send_json_def eng
        split: option.splits sum.splits prod.splits raised.splits bool.splits)
qed

lemma run_scan_returns:
  assumes "\<forall>n. send_raises env n = None"
    and "\<forall>args status. fst (cli_main env args) \<noteq> Some (SystemExit status)"
  shows "\<exists>r. fst (run_scan env model_name probes detectors scan_id w) = Inr r"
proof -
  obtain out r w1 where b: "run_scan_body env model_name probes detectors scan_id w = (out, r, w1)"
    by (cases "run_scan_body env model_name probes detectors scan_id w")
  have no_exit: "out \<noteq> Some (SystemExit status)" for status
    using run_scan_body_exit[OF assms(2), of model_name probes detectors scan_id w status] b
    by simp
  show ?thesis
  proof (cases out)
    case None
    then show ?thesis by (simp add: run_scan_def b)
  next
    case (Some x)
    then show ?thesis
      using no_exit assms(1) by (cases x) (simp_all add: run_scan_def b send_json_def)
  qed
qed

text \<open>
  The exit of the engine on a channel that accepts every frame: the three \<^verbatim>\<open>status\<close> frames
  before the engine call are all the client gets, nothing is logged, and \<^verbatim>\<open>SystemExit\<close>
  leaves \<^verbatim>\<open>run_scan\<close>.
\<close>

lemma run_scan_engine_exit:
  "run_scan (example_env (\<lambda>n. None) (Some (SystemExit ''2''), []))
     (Some ''llama3'') (Some [''dan.DAN_Jailbreak'']) None ''s1'' idle
   = (Inl (SystemExit ''2''),
      idle\<lparr>sent := [Status ''Starting scan on model: llama3'' 0,
                     Status ''Initializing Garak...'' 10, Status ''Running scan...'' 20],
           send_calls := 3\<rparr>)"
  by (simp add: run_scan_def run_scan_body_def send_json_def run_garak_def probe_args_def
      example_env_def idle_def numeral_3_eq_3)




text \<open>
  Claim C2: no exception leaves \<^verbatim>\<open>run_scan\<close>; a failure of the channel, too, is turned into
  an \<^verbatim>\<open>error\<close> frame. The code does not do that on a closed channel: the first
  \<^verbatim>\<open>send_json\<close> raises, the handler logs it, and the handler's own \<^verbatim>\<open>send_json\<close> raises
  out of \<^verbatim>\<open>run_scan\<close>.
\<close>

theorem run_scan_raises_on_closed_channel:
  "run_scan (example_env (\<lambda>n. Some (Exception ''Cannot call send once a close message has been sent.''))
               (None, []))
     (Some ''llama3'') (Some [''dan.DAN_Jailbreak'']) None ''s1'' idle
   = (Inl (Exc (Exception ''Cannot call send once a close message has been sent.'')),
      idle\<lparr>errors_logged :=
             [''Error running scan: Cannot call send once a close message has been sent.''],
           send_calls := 2\<rparr>)"
  by (simp add: run_scan_def run_scan_body_def send_json_def logger_error_def
      example_env_def idle_def)

section \<open>Properties of the websocket endpoint\<close>

lemma mark_completed_last:
  assumes "scan_id \<notin> rec_id ` set scans" and "rec_id scan = scan_id"
  shows "mark_completed scan_id r (scans @ [scan]) =
           scans @ [scan\<lparr>rec_status := ''completed'',
                         rec_results := (case r of None \<Rightarrow> rec_results scan | Some x \<Rightarrow> Some x)\<rparr>]"
  using assms by (induction scans) (auto split: option.splits)

lemma load_scans_save_scan: "load_scans (save_scan scan file) = load_scans file @ [scan]"
  by (simp add: save_scan_def load_scans_def)

lemma scan_session_lifecycle:
  assumes rq: "receive_json env = Inr data"
    and mn: "dict_getitem ''model_name'' (req_model_name data) = Inr model_name"
    and pb: "dict_getitem ''probes'' (req_probes data) = Inr probes"
    and fresh: "uuid4 env \<notin> rec_id ` set (load_scans (scans_file w))"
    and healthy: "\<forall>n. send_raises env n = None"
    and no_exit: "\<forall>args status. fst (cli_main env args) \<noteq> Some (SystemExit status)"
  shows "\<exists>r w2. scan_session env w = (None, w2)
           \<and> active_connections w2 = active_connections w
           \<and> scans_file w2 =
               Holds (load_scans (scans_file w) @
                 [\<lparr>rec_id = uuid4 env, rec_timestamp = now_isoformat env,
                   rec_model_name = model_name, rec_probes = probes,
                   rec_detectors = dict_get (req_detectors data),
                   rec_description = dict_get (req_description data),
                   rec_status = ''completed'', rec_results = r\<rparr>])"
proof -
  let ?rec = "\<lparr>rec_id = uuid4 env, rec_timestamp = now_isoformat env,
               rec_model_name = model_name, rec_probes = probes,
               rec_detectors = dict_get (req_detectors data),
               rec_description = dict_get (req_description data),
               rec_status = ''running'', rec_results = None\<rparr>"
  let ?w1 = "w\<lparr>scans_file := save_scan ?rec (scans_file w)\<rparr>"
  let ?ds = "dict_get (req_detectors data)"
  obtain res w2 where run:
    "run_scan env model_name probes ?ds (uuid4 env) ?w1 = (res, w2)"
    by (cases "run_scan env model_name probes ?ds (uuid4 env) ?w1")
  obtain r where res: "res = Inr r"
    using run_scan_returns[OF healthy no_exit, of model_name probes ?ds "uuid4 env" ?w1] run
    by auto
  have kept: "scans_file w2 = save_scan ?rec (scans_file w)"
    and conns: "active_connections w2 = active_connections w"
    using run_scan_shape[where env = env and model_name = model_name and probes = probes
        and detectors = ?ds and scan_id = "uuid4 env" and w = ?w1] run
    by simp_all
  have upd: "mark_completed (uuid4 env) r (load_scans (scans_file w) @ [?rec]) =
      load_scans (scans_file w) @
        [?rec\<lparr>rec_status := ''completed'',
               rec_results := (case r of None \<Rightarrow> rec_results ?rec | Some x \<Rightarrow> Some x)\<rparr>]"
    using mark_completed_last[OF fresh, of ?rec r] by simp
  have "scan_session env w =
      (None, w2\<lparr>scans_file := Holds (mark_completed (uuid4 env) r
                                      (load_scans (scans_file w) @ [?rec]))\<rparr>)"
    by (simp add: scan_session_def rq mn pb Let_def run res kept load_scans_save_scan)
  then show ?thesis
    unfolding upd using conns by (cases r) auto
qed

text \<open>
  The life of a record when the channel accepts every frame and the engine returns or raises
  an exception of class \<^verbatim>\<open>Exception\<close>: the record of an accepted request is appended with
  status \<^verbatim>\<open>running\<close>, and when \<^verbatim>\<open>websocket_scan\<close> ends the backing file holds the earlier
  records followed by that record with status \<^verbatim>\<open>completed\<close> and with whatever \<^verbatim>\<open>run_scan\<close>
  returned as its results.
\<close>

lemma record_lifecycle:
  assumes acc: "accept_raises env = None"
    and rq: "receive_json env = Inr data"
    and mn: "dict_getitem ''model_name'' (req_model_name data) = Inr model_name"
    and pb: "dict_getitem ''probes'' (req_probes data) = Inr probes"
    and fresh: "uuid4 env \<notin> rec_id ` set (load_scans (scans_file w))"
    and healthy: "\<forall>n. send_raises env n = None"
    and no_exit: "\<forall>args status. fst (cli_main env args) \<noteq> Some (SystemExit status)"
  shows "\<exists>r. scans_file (snd (websocket_scan env websocket w)) =
           Holds (load_scans (scans_file w) @
             [\<lparr>rec_id = uuid4 env, rec_timestamp = now_isoformat env,
               rec_model_name = model_name, rec_probes = probes,
               rec_detectors = dict_get (req_detectors data),
               rec_description = dict_get (req_description data),
               rec_status = ''completed'', rec_results = r\<rparr>])"
proof -
  let ?w1 = "w\<lparr>active_connections := active_connections w @ [websocket]\<rparr>"
  have "uuid4 env \<notin> rec_id ` set (load_scans (scans_file ?w1))"
    using fresh by simp
  from scan_session_lifecycle[OF rq mn pb this healthy no_exit]
  obtain r w2 where s: "scan_session env ?w1 = (None, w2)"
    and f: "scans_file w2 =
               Holds (load_scans (scans_file w) @
                 [\<lparr>rec_id = uuid4 env, rec_timestamp = now_isoformat env,
                   rec_model_name = model_name, rec_probes = probes,
                   rec_detectors = dict_get (req_detectors data),
                   rec_description = dict_get (req_description data),
                   rec_status = ''completed'', rec_results = r\<rparr>])"
    by auto
  have "scans_file (snd (websocket_scan env websocket w)) = scans_file w2"
    by (simp add: websocket_scan_def acc Let_def s)
  with f show ?thesis by auto
qed

text \<open>
  Claim C3: when the client disconnects while the engine runs, the later sends are passed
  over in silence and the record is still brought to its terminal status. The code leaves
  the record as it was: the channel takes the three frames before the engine call and is
  closed after it, the engine succeeds with two report lines, the next \<^verbatim>\<open>send_json\<close>
  raises, the handler's \<^verbatim>\<open>send_json\<close> raises out of \<^verbatim>\<open>run_scan\<close>, and
  \<^verbatim>\<open>websocket_scan\<close> never reaches its update of the store.
\<close>

theorem disconnect_during_scan_leaves_running:
  "websocket_scan
     (example_env (\<lambda>n. if n < 3 then None else Some (WebSocketDisconnect ''1006''))
        (None, [(''report.jsonl'', [''{}'', ''{}''], None)])) 7 idle
   = (None,
      \<lparr>scans_file = Holds
         [\<lparr>rec_id = ''s1'', rec_timestamp = ''2025-01-01T00:00:00'',
           rec_model_name = Some ''llama3'', rec_probes = Some [''dan.DAN_Jailbreak''],
           rec_detectors = None, rec_description = None,
           rec_status = ''running'', rec_results = None\<rparr>],
       active_connections = [],
       errors_logged = [''Error running scan: 1006''],
       sent = [Status ''Starting scan on model: llama3'' 0, Status ''Initializing Garak...'' 10,
               Status ''Running scan...'' 20],
       send_calls = 5\<rparr>)"
  by (simp add: websocket_scan_def scan_session_def run_scan_def run_scan_body_def send_json_def
      run_garak_def logger_error_def example_env_def idle_def save_scan_def load_scans_def
      probe_args_def Let_def numeral_3_eq_3)

text \<open>
  Claim C7: every accepted request gets a record with status \<^verbatim>\<open>running\<close>, and after the
  engine run, on success or failure, that record is set to \<^verbatim>\<open>completed\<close>. The code does
  so while the channel takes every frame (\<open>record_lifecycle\<close>), and does not once the channel
  is closed during the run: here the engine fails, the \<^verbatim>\<open>error\<close> frame and the handler's
  frame both raise, and the record stays \<^verbatim>\<open>running\<close>.
\<close>

theorem engine_failure_on_closed_channel_leaves_running:
  "scans_file
     (snd (websocket_scan
             (example_env (\<lambda>n. if n < 3 then None else Some (Exception ''closed''))
                (Some (Exc (Exception ''boom'')), [])) 7 idle))
   = Holds
       [\<lparr>rec_id = ''s1'', rec_timestamp = ''2025-01-01T00:00:00'',
         rec_model_name = Some ''llama3'', rec_probes = Some [''dan.DAN_Jailbreak''],
         rec_detectors = None, rec_description = None,
         rec_status = ''running'', rec_results = None\<rparr>]
   \<and> errors_logged
       (snd (websocket_scan
               (example_env (\<lambda>n. if n < 3 then None else Some (Exception ''closed''))
                  (Some (Exc (Exception ''boom'')), [])) 7 idle))
     = [''Garak scan error: boom'', ''Error running scan: closed'', ''WebSocket error: closed'']"
  by (simp add: websocket_scan_def scan_session_def run_scan_def run_scan_body_def send_json_def
      run_garak_def logger_error_def example_env_def idle_def save_scan_def load_scans_def
      probe_args_def Let_def numeral_3_eq_3)

text \<open>
  Claim C10: when \<^verbatim>\<open>receive_json\<close> raises, by a disconnect or otherwise, before a request
  has arrived, the backing file is left as it was, so no record is created; no \<^verbatim>\<open>status\<close>
  or \<^verbatim>\<open>complete\<close> frame is sent (after a disconnect no frame at all, otherwise at most the
  \<^verbatim>\<open>error\<close> frame of the handler); and the connection is taken out of
  \<^verbatim>\<open>active_connections\<close> again, so that a list which did not hold it before is unchanged.
\<close>

theorem no_request_no_record:
  assumes "receive_json env = Inl e"
  shows "scans_file (snd (websocket_scan env websocket w)) = scans_file w
    \<and> (\<forall>ev\<in>set (emitted w (snd (websocket_scan env websocket w))). \<exists>m. ev = Error m)
    \<and> ((\<exists>m. e = WebSocketDisconnect m) \<longrightarrow>
         sent (snd (websocket_scan env websocket w)) = sent w)
    \<and> (accept_raises env = None \<longrightarrow>
         active_connections (snd (websocket_scan env websocket w))
           = remove1 websocket (active_connections w @ [websocket]))
    \<and> (websocket \<notin> set (active_connections w) \<longrightarrow>
         active_connections (snd (websocket_scan env websocket w)) = active_connections w)"
proof (cases "accept_raises env")
  case (Some a)
  then show ?thesis by (simp add: websocket_scan_def emitted_def)
next
  case None
  have fresh: "x \<notin> set xs \<Longrightarrow> remove1 x (xs @ [x]) = xs" for x :: nat and xs
    by (induction xs) auto
  show ?thesis
  proof (cases e)
    case (WebSocketDisconnect m)
    then show ?thesis
      using assms None fresh[of websocket "active_connections w"]
      by (simp add: websocket_scan_def scan_session_def emitted_def Let_def)
  next
    case (Exception m)
    then show ?thesis
      using assms None fresh[of websocket "active_connections w"]
      by (cases "send_raises env (send_calls w)")
         (simp_all add: websocket_scan_def scan_session_def emitted_def Let_def send_json_def
            logger_error_def)
  qed
qed

theorem no_request_no_record_witness:
  "scans_file (snd (websocket_scan
       ((example_env (\<lambda>n. Some (WebSocketDisconnect ''1001'')) (None, []))
          \<lparr>receive_json := Inl (WebSocketDisconnect ''1001'')\<rparr>) 7
       (idle\<lparr>active_connections := [4]\<rparr>))) = Holds []
   \<and> sent (snd (websocket_scan
       ((example_env (\<lambda>n. Some (WebSocketDisconnect ''1001'')) (None, []))
          \<lparr>receive_json := Inl (WebSocketDisconnect ''1001'')\<rparr>) 7
       (idle\<lparr>active_connections := [4]\<rparr>))) = []
   \<and> active_connections (snd (websocket_scan
       ((example_env (\<lambda>n. Some (WebSocketDisconnect ''1001'')) (None, []))
          \<lparr>receive_json := Inl (WebSocketDisconnect ''1001'')\<rparr>) 7
       (idle\<lparr>active_connections := [4]\<rparr>))) = [4]"
  using no_request_no_record[of
      "(example_env (\<lambda>n. Some (WebSocketDisconnect ''1001'')) (None, []))
          \<lparr>receive_json := Inl (WebSocketDisconnect ''1001'')\<rparr>"
      "WebSocketDisconnect ''1001''" 7 "idle\<lparr>active_connections := [4]\<rparr>"]
  by (simp add: example_env_def idle_def)

end
